theory Spec2Isabelle
  imports Complex_Main "HOL-Library.Log_Nat"
begin

section \<open>JavaScript numbers\<close>

text \<open>
  Every number of \<^verbatim>\<open>server.js\<close> is an IEEE 754 binary64 value. A finite value is
  kept as the rational it denotes; the two infinities and NaN are separate constructors.
  Negative zero is identified with zero: the program never divides by a value that can
  be a negative zero (its divisors are the literal \<^verbatim>\<open>100\<close>, the literal \<^verbatim>\<open>55\<close>
  and a sum that starts from the literal \<^verbatim>\<open>0\<close>), and no other operation it uses
  tells the two zeros apart.
\<close>

datatype jsnum = Fin rat | PInf | NInf | NaN

text \<open>Round to the nearest integer, ties to the even one.\<close>

definition rne :: "rat \<Rightarrow> int" where
  "rne x = (let f = \<lfloor>x\<rfloor>; r = x - of_int f in
            if r < 1/2 then f else if 1/2 < r then f + 1 else if even f then f else f + 1)"

text \<open>The binary exponent of a positive rational: \<open>2 powi expo a \<le> a < 2 powi (expo a + 1)\<close>.\<close>

definition expo :: "rat \<Rightarrow> int" where
  "expo a = (if 1 \<le> a then bitlen \<lfloor>a\<rfloor> - 1 else - bitlen (\<lceil>1 / a\<rceil> - 1))"

text \<open>
  Rounding of a positive rational to binary64: 53 significant bits, least exponent
  \<open>-1022\<close> with subnormals below it, ties to the even significand; \<open>None\<close> is
  overflow.
\<close>

definition eff_expo :: "rat \<Rightarrow> int" where
  "eff_expo a = max (expo a) (- 1022)"

definition ulp :: "rat \<Rightarrow> rat" where
  "ulp a = 2 powi (eff_expo a - 52)"

definition nearest :: "rat \<Rightarrow> rat" where
  "nearest a = of_int (rne (a / ulp a)) * ulp a"

definition fl_pos :: "rat \<Rightarrow> rat option" where
  "fl_pos a = (if 1024 \<le> eff_expo a \<or> (eff_expo a = 1023 \<and> rne (a / ulp a) = 2 ^ 53) then None
               else Some (nearest a))"

definition fl :: "rat \<Rightarrow> jsnum" where
  "fl x = (if x = 0 then Fin 0
           else if 0 < x then (case fl_pos x of None \<Rightarrow> PInf | Some r \<Rightarrow> Fin r)
           else (case fl_pos (- x) of None \<Rightarrow> NInf | Some r \<Rightarrow> Fin (- r)))"


fun js_add :: "jsnum \<Rightarrow> jsnum \<Rightarrow> jsnum" where
  "js_add NaN _ = NaN"
| "js_add _ NaN = NaN"
| "js_add (Fin a) (Fin b) = fl (a + b)"
| "js_add PInf NInf = NaN"
| "js_add NInf PInf = NaN"
| "js_add PInf _ = PInf"
| "js_add NInf _ = NInf"
| "js_add (Fin a) PInf = PInf"
| "js_add (Fin a) NInf = NInf"


text \<open>The infinity of the sign of a non-zero rational.\<close>

definition inf_of_sign :: "rat \<Rightarrow> jsnum" where
  "inf_of_sign a = (if 0 < a then PInf else NInf)"

fun js_mul :: "jsnum \<Rightarrow> jsnum \<Rightarrow> jsnum" where
  "js_mul NaN _ = NaN"
| "js_mul _ NaN = NaN"
| "js_mul (Fin a) (Fin b) = fl (a * b)"
| "js_mul (Fin a) PInf = (if a = 0 then NaN else inf_of_sign a)"
| "js_mul (Fin a) NInf = (if a = 0 then NaN else inf_of_sign (- a))"
| "js_mul PInf (Fin b) = (if b = 0 then NaN else inf_of_sign b)"
| "js_mul NInf (Fin b) = (if b = 0 then NaN else inf_of_sign (- b))"
| "js_mul PInf PInf = PInf"
| "js_mul PInf NInf = NInf"
| "js_mul NInf PInf = NInf"
| "js_mul NInf NInf = PInf"

fun js_div :: "jsnum \<Rightarrow> jsnum \<Rightarrow> jsnum" where
  "js_div NaN _ = NaN"
| "js_div _ NaN = NaN"
| "js_div (Fin a) (Fin b) =
     (if b = 0 then (if a = 0 then NaN else inf_of_sign a) else fl (a / b))"
| "js_div (Fin a) PInf = Fin 0"
| "js_div (Fin a) NInf = Fin 0"
| "js_div PInf (Fin b) = (if 0 \<le> b then PInf else NInf)"
| "js_div NInf (Fin b) = (if 0 \<le> b then NInf else PInf)"
| "js_div PInf _ = NaN"
| "js_div NInf _ = NaN"

text \<open>\<^verbatim>\<open>a <= b\<close> and \<^verbatim>\<open>a > b\<close>: false as soon as one side is NaN.\<close>

fun js_le :: "jsnum \<Rightarrow> jsnum \<Rightarrow> bool" where
  "js_le NaN _ = False"
| "js_le _ NaN = False"
| "js_le (Fin a) (Fin b) = (a \<le> b)"
| "js_le NInf _ = True"
| "js_le _ PInf = True"
| "js_le PInf _ = False"
| "js_le (Fin a) NInf = False"





text \<open>Truthiness of a number, and \<^verbatim>\<open>x || y\<close> on numbers.\<close>

definition truthy :: "jsnum \<Rightarrow> bool" where
  "truthy x = (x \<noteq> Fin 0 \<and> x \<noteq> NaN)"

definition js_or :: "jsnum \<Rightarrow> jsnum \<Rightarrow> jsnum" where
  "js_or x y = (if truthy x then x else y)"

text \<open>\<^verbatim>\<open>Number(v)\<close> of a request field that is a number or \<^verbatim>\<open>undefined\<close>.\<close>

definition Number :: "jsnum option \<Rightarrow> jsnum" where
  "Number v = (case v of None \<Rightarrow> NaN | Some x \<Rightarrow> x)"

text \<open>\<^verbatim>\<open>s || d\<close> on a request field that is a string or \<^verbatim>\<open>undefined\<close>.\<close>

definition str_or :: "string option \<Rightarrow> string \<Rightarrow> string" where
  "str_or s d = (case s of None \<Rightarrow> d | Some t \<Rightarrow> (if t = [] then d else t))"

text \<open>\<^verbatim>\<open>!s\<close> on such a field.\<close>

definition str_missing :: "string option \<Rightarrow> bool" where
  "str_missing s = (case s of None \<Rightarrow> True | Some t \<Rightarrow> t = [])"

text \<open>\<^verbatim>\<open>!n\<close> on a request field that is a number or \<^verbatim>\<open>undefined\<close>.\<close>

definition num_missing :: "jsnum option \<Rightarrow> bool" where
  "num_missing n = (case n of None \<Rightarrow> True | Some x \<Rightarrow> \<not> truthy x)"


text \<open>Decimal rendering of a natural number inside a template string.\<close>

fun show_nat :: "nat \<Rightarrow> string" where
  "show_nat n = (if n < 10 then [char_of (48 + n)] else show_nat (n div 10) @ [char_of (48 + n mod 10)])"

section \<open>The store\<close>

text \<open>
  The tables of \<^verbatim>\<open>initializeDatabase\<close>, one record per row, with the columns under
  their names in the schema (prefixed by the table, since several tables share column
  names). A table is the list of its rows in insertion order. Numeric columns other than
  the keys hold whatever JavaScript number the route bound to them. An
  \<^verbatim>\<open>AUTOINCREMENT\<close> key comes from a per-table counter that only grows.
  A statement sent with \<^verbatim>\<open>db.execute\<close> is modelled as carried out by the store as
  written; the \<^verbatim>\<open>catch\<close> branch of a route (HTTP 500), which only a failing store or
  library call reaches, is not part of the model.
\<close>

record shareholder =
  sh_id :: nat
  sh_full_name :: string
  sh_father_name :: string
  sh_address :: string
  sh_pin_code :: string
  sh_phone :: string
  sh_email :: string
  sh_business_role :: string
  sh_num_shares :: jsnum
  sh_username :: string
  sh_password_hash :: string
  sh_photo_data :: "string option"
  sh_signature_data :: "string option"
  sh_total_investment :: jsnum
  sh_price_per_share :: jsnum
  sh_stage :: jsnum
  sh_status :: string
  sh_created_at :: string
  sh_approved_at :: "string option"

record dividend =
  dv_id :: nat
  dv_shareholder_id :: nat
  dv_month :: string
  dv_gross_amount :: jsnum
  dv_gst_rate :: jsnum
  dv_amount :: jsnum
  dv_payment_method :: string
  dv_status :: string
  dv_paid_at :: string

record investment_stage =
  st_id :: nat
  st_stage :: jsnum
  st_name :: string
  st_price_per_share :: jsnum
  st_min_subscribers :: jsnum
  st_max_subscribers :: jsnum
  st_status :: string
  st_shares_available :: jsnum

record db =
  shareholders :: "shareholder list"
  dividend_history :: "dividend list"
  investment_stages :: "investment_stage list"
  shareholders_seq :: nat
  dividend_seq :: nat
  stages_seq :: nat

text \<open>What a route sends back: the HTTP status and the JSON body.\<close>

datatype payload =
    NoData
  | Amounts (p_net: jsnum) (p_gross: jsnum) (p_gstAmt: jsnum)
  | PaidCount nat
  | NewId nat
  | LoginUser nat string string string

record response =
  http_status :: nat
  success :: bool
  message :: "string option"
  payload :: payload

definition reply :: "nat \<Rightarrow> bool \<Rightarrow> string \<Rightarrow> response" where
  "reply code ok msg = \<lparr>http_status = code, success = ok, message = Some msg, payload = NoData\<rparr>"

section \<open>Dividend allocator\<close>


















text \<open>
  The drift bound of the specification: all the grosses are finite and their sum, taken
  exactly, is within 0.01 times their number of the total amount.
\<close>

fun finite_values :: "jsnum list \<Rightarrow> rat list option" where
  "finite_values [] = Some []"
| "finite_values (Fin a # xs) = (case finite_values xs of None \<Rightarrow> None | Some vs \<Rightarrow> Some (a # vs))"
| "finite_values (_ # xs) = None"


section \<open>Stage registry\<close>

text \<open>
  What \<^verbatim>\<open>getRunningStage\<close> returns: a row of \<^verbatim>\<open>investment_stages\<close>, or the object
  literal \<^verbatim>\<open>{ price_per_share: 1200, stage: 2, name: 'Current Price' }\<close>, which has
  these three properties and no other.
\<close>

datatype stage_object = StageRow investment_stage | StageLiteral jsnum jsnum string

fun so_price_per_share :: "stage_object \<Rightarrow> jsnum" where
  "so_price_per_share (StageRow r) = st_price_per_share r"
| "so_price_per_share (StageLiteral p s n) = p"

fun so_stage :: "stage_object \<Rightarrow> jsnum" where
  "so_stage (StageRow r) = st_stage r"
| "so_stage (StageLiteral p s n) = s"

fun so_name :: "stage_object \<Rightarrow> string" where
  "so_name (StageRow r) = st_name r"
| "so_name (StageLiteral p s n) = n"

text \<open>
  \<^verbatim>\<open>r.rows[0] || { price_per_share: 1200, stage: 2, name: 'Current Price' }\<close> over
  \<^verbatim>\<open>SELECT * FROM investment_stages WHERE status = 'RUNNING'\<close>
\<close>

definition getRunningStage :: "db \<Rightarrow> stage_object" where
  "getRunningStage d =
     (case [r \<leftarrow> investment_stages d. st_status r = ''RUNNING''] of
        [] \<Rightarrow> StageLiteral (Fin 1200) (Fin 2) ''Current Price''
      | r # _ \<Rightarrow> StageRow r)"

text \<open>The body of \<^verbatim>\<open>PUT /api/admin/stages/:id\<close>; \<open>None\<close> is \<^verbatim>\<open>undefined\<close>.\<close>

record stage_update =
  su_status :: "string option"
  su_price_per_share :: "jsnum option"
  su_name :: "string option"
  su_shares_available :: "jsnum option"

text \<open>The \<^verbatim>\<open>SET\<close> list built from the supplied fields, applied to one row.\<close>

definition set_stage_fields :: "stage_update \<Rightarrow> investment_stage \<Rightarrow> investment_stage" where
  "set_stage_fields u r =
     (let r1 = (case su_status u of None \<Rightarrow> r | Some v \<Rightarrow> r\<lparr>st_status := v\<rparr>);
          r2 = (case su_price_per_share u of None \<Rightarrow> r1 | Some v \<Rightarrow> r1\<lparr>st_price_per_share := v\<rparr>);
          r3 = (case su_name u of None \<Rightarrow> r2 | Some v \<Rightarrow> r2\<lparr>st_name := v\<rparr>);
          r4 = (case su_shares_available u of None \<Rightarrow> r3 | Some v \<Rightarrow> r3\<lparr>st_shares_available := v\<rparr>)
      in r4)"

text \<open>\<^verbatim>\<open>PUT /api/admin/stages/:id\<close>\<close>

definition update_stage :: "nat \<Rightarrow> stage_update \<Rightarrow> db \<Rightarrow> response \<times> db" where
  "update_stage sid u d =
     (if su_status u = None \<and> su_price_per_share u = None \<and> su_name u = None
         \<and> su_shares_available u = None
      then (reply 400 False ''Nothing to update'', d)
      else (reply 200 True ''Stage updated'',
            d\<lparr>investment_stages :=
                 map (\<lambda>r. if st_id r = sid then set_stage_fields u r else r) (investment_stages d)\<rparr>))"

text \<open>The body of \<^verbatim>\<open>POST /api/admin/stages\<close>.\<close>

record stage_create =
  sc_stage :: "jsnum option"
  sc_name :: "string option"
  sc_price_per_share :: "jsnum option"
  sc_min_subscribers :: "jsnum option"
  sc_max_subscribers :: "jsnum option"
  sc_status :: "string option"
  sc_shares_available :: "jsnum option"

text \<open>\<^verbatim>\<open>POST /api/admin/stages\<close>\<close>

definition create_stage :: "stage_create \<Rightarrow> db \<Rightarrow> response \<times> db" where
  "create_stage c d =
     (if num_missing (sc_stage c) \<or> str_missing (sc_name c) \<or> num_missing (sc_price_per_share c)
      then (reply 400 False ''stage, name, price_per_share required'', d)
      else (\<lparr>http_status = 200, success = True, message = Some ''Stage added'',
              payload = NewId (Suc (stages_seq d))\<rparr>,
            d\<lparr>investment_stages := investment_stages d @
                 [\<lparr>st_id = Suc (stages_seq d), st_stage = Number (sc_stage c),
                   st_name = the (sc_name c),
                   st_price_per_share = Number (sc_price_per_share c),
                   st_min_subscribers = js_or (Number (sc_min_subscribers c)) (Fin 0),
                   st_max_subscribers = js_or (Number (sc_max_subscribers c)) (Fin 0),
                   st_status = str_or (sc_status c) ''UPCOMING'',
                   st_shares_available = js_or (Number (sc_shares_available c)) (Fin 0)\<rparr>],
               stages_seq := Suc (stages_seq d)\<rparr>))"

section \<open>Shareholder lifecycle\<close>

text \<open>The body of \<^verbatim>\<open>POST /api/agreements\<close>.\<close>

record agreement_request =
  ag_fullName :: "string option"
  ag_fatherName :: "string option"
  ag_address :: "string option"
  ag_phone :: "string option"
  ag_email :: "string option"
  ag_businessRole :: "string option"
  ag_numShares :: "jsnum option"
  ag_username :: "string option"
  ag_password :: "string option"
  ag_photoData :: "string option"
  ag_investorSignature :: "string option"

text \<open>\<^verbatim>\<open>s || null\<close>\<close>

definition str_or_null :: "string option \<Rightarrow> string option" where
  "str_or_null s = (if str_missing s then None else s)"

text \<open>
  \<^verbatim>\<open>POST /api/agreements\<close>. \<open>hash\<close> stands for \<^verbatim>\<open>bcrypt.hash(password, 10)\<close> and
  \<open>now\<close> for \<^verbatim>\<open>new Date().toISOString()\<close>.
\<close>

definition register_agreement ::
  "(string \<Rightarrow> string) \<Rightarrow> string \<Rightarrow> agreement_request \<Rightarrow> db \<Rightarrow> response \<times> db" where
  "register_agreement hash now rq d =
     (if str_missing (ag_fullName rq) \<or> str_missing (ag_address rq) \<or> str_missing (ag_phone rq)
         \<or> str_missing (ag_email rq) \<or> str_missing (ag_username rq)
         \<or> str_missing (ag_password rq) \<or> num_missing (ag_numShares rq)
      then (reply 400 False ''Missing required fields'', d)
      else if [s \<leftarrow> shareholders d. sh_username s = the (ag_username rq)] \<noteq> []
      then (reply 400 False ''Username already taken'', d)
      else if [s \<leftarrow> shareholders d. sh_email s = the (ag_email rq)] \<noteq> []
      then (reply 400 False ''Email already registered'', d)
      else
        let currentStage = getRunningStage d;
            pricePerShare = so_price_per_share currentStage;
            totalInvestment = js_mul (Number (ag_numShares rq)) pricePerShare;
            passwordHash = hash (the (ag_password rq))
        in (\<lparr>http_status = 200, success = True,
             message = Some ''Agreement submitted successfully'',
             payload = NewId (Suc (shareholders_seq d))\<rparr>,
            d\<lparr>shareholders := shareholders d @
                 [\<lparr>sh_id = Suc (shareholders_seq d),
                   sh_full_name = the (ag_fullName rq),
                   sh_father_name = str_or (ag_fatherName rq) [],
                   sh_address = the (ag_address rq),
                   sh_pin_code = [],
                   sh_phone = the (ag_phone rq),
                   sh_email = the (ag_email rq),
                   sh_business_role = str_or (ag_businessRole rq) ''DRIVER'',
                   sh_num_shares = Number (ag_numShares rq),
                   sh_username = the (ag_username rq),
                   sh_password_hash = passwordHash,
                   sh_photo_data = str_or_null (ag_photoData rq),
                   sh_signature_data = str_or_null (ag_investorSignature rq),
                   sh_total_investment = totalInvestment,
                   sh_price_per_share = pricePerShare,
                   sh_stage = so_stage currentStage,
                   sh_status = ''PENDING'',
                   sh_created_at = now,
                   sh_approved_at = None\<rparr>],
               shareholders_seq := Suc (shareholders_seq d)\<rparr>))"

text \<open>
  \<^verbatim>\<open>POST /api/auth/login\<close>. \<open>compare\<close> stands for \<^verbatim>\<open>bcrypt.compare\<close>. The route
  only reads the store.
\<close>

definition login :: "(string \<Rightarrow> string \<Rightarrow> bool) \<Rightarrow> string option \<Rightarrow> string option \<Rightarrow> db \<Rightarrow> response" where
  "login compare username password d =
     (if str_missing username \<or> str_missing password
      then reply 400 False ''Username and password required''
      else (case [s \<leftarrow> shareholders d. sh_username s = the username] of
              [] \<Rightarrow> reply 200 False ''Invalid credentials.''
            | row # _ \<Rightarrow>
                if \<not> compare (the password) (sh_password_hash row)
                then reply 200 False ''Invalid credentials.''
                else if sh_business_role row \<noteq> ''ADMIN'' \<and> sh_status row \<noteq> ''APPROVED''
                then reply 200 False ''Account pending approval. Please wait for admin to approve.''
                else \<lparr>http_status = 200, success = True, message = None,
                       payload = LoginUser (sh_id row) (sh_full_name row)
                         (if sh_business_role row = ''ADMIN'' then ''ADMIN'' else ''SHAREHOLDER'')
                         (sh_username row)\<rparr>))"

text \<open>
  \<^verbatim>\<open>PUT /api/admin/agreements/:id\<close>; \<open>now\<close> stands for \<^verbatim>\<open>new Date().toISOString()\<close>.
\<close>

definition update_agreement_status :: "string \<Rightarrow> nat \<Rightarrow> string \<Rightarrow> db \<Rightarrow> response \<times> db" where
  "update_agreement_status now sid status d =
     (let approvedAt = (if status = ''APPROVED'' then Some now else None)
      in (reply 200 True (''Status updated to '' @ status),
          d\<lparr>shareholders :=
               map (\<lambda>s. if sh_id s = sid then s\<lparr>sh_status := status, sh_approved_at := approvedAt\<rparr> else s)
                 (shareholders d)\<rparr>))"





section \<open>Sample data\<close>

definition holder :: "nat \<Rightarrow> string \<Rightarrow> string \<Rightarrow> string \<Rightarrow> jsnum \<Rightarrow> shareholder" where
  "holder i uname role st n =
     \<lparr>sh_id = i, sh_full_name = ''Tashi Lepcha'', sh_father_name = [], sh_address = ''MG Marg, Gangtok'',
      sh_pin_code = [], sh_phone = ''9800000000'', sh_email = uname @ ''@example.com'',
      sh_business_role = role, sh_num_shares = n, sh_username = uname,
      sh_password_hash = ''hash:secret'', sh_photo_data = None, sh_signature_data = None,
      sh_total_investment = js_mul n (Fin 1200), sh_price_per_share = Fin 1200, sh_stage = Fin 2,
      sh_status = st, sh_created_at = ''2026-01-01T00:00:00.000Z'', sh_approved_at = None\<rparr>"

definition seeded_stages :: "investment_stage list" where
  "seeded_stages =
     [\<lparr>st_id = 1, st_stage = Fin 1, st_name = ''Base Price'', st_price_per_share = Fin 1000,
       st_min_subscribers = Fin 0, st_max_subscribers = Fin 1500, st_status = ''SOLD_OUT'',
       st_shares_available = Fin 0\<rparr>,
      \<lparr>st_id = 2, st_stage = Fin 2, st_name = ''Current Price'', st_price_per_share = Fin 1200,
       st_min_subscribers = Fin 1501, st_max_subscribers = Fin 5000, st_status = ''RUNNING'',
       st_shares_available = Fin 100\<rparr>,
      \<lparr>st_id = 3, st_stage = Fin 3, st_name = ''Next Price'', st_price_per_share = Fin 1440,
       st_min_subscribers = Fin 5001, st_max_subscribers = Fin 15000, st_status = ''UPCOMING'',
       st_shares_available = Fin 100\<rparr>]"

definition store_of :: "shareholder list \<Rightarrow> dividend list \<Rightarrow> investment_stage list \<Rightarrow> db" where
  "store_of shs dvs sts =
     \<lparr>shareholders = shs, dividend_history = dvs, investment_stages = sts,
      shareholders_seq = length shs, dividend_seq = length dvs, stages_seq = length sts\<rparr>"



definition signup_request :: "string \<Rightarrow> jsnum \<Rightarrow> agreement_request" where
  "signup_request uname n =
     \<lparr>ag_fullName = Some ''Pema Bhutia'', ag_fatherName = None, ag_address = Some ''Tadong, Gangtok'',
      ag_phone = Some ''9800000001'', ag_email = Some (uname @ ''@example.com''),
      ag_businessRole = None, ag_numShares = Some n, ag_username = Some uname,
      ag_password = Some ''secret'', ag_photoData = None, ag_investorSignature = None\<rparr>"

text \<open>A stand-in for the hashing library in the sample runs.\<close>

definition sample_hash :: "string \<Rightarrow> string" where
  "sample_hash p = ''hash:'' @ p"

definition sample_compare :: "string \<Rightarrow> string \<Rightarrow> bool" where
  "sample_compare p h = (h = sample_hash p)"

definition price_only :: stage_update where
  "price_only = \<lparr>su_status = None, su_price_per_share = Some (Fin 1500), su_name = None,
     su_shares_available = None\<rparr>"

definition empty_update :: stage_update where
  "empty_update = \<lparr>su_status = None, su_price_per_share = None, su_name = None,
     su_shares_available = None\<rparr>"

definition nameless_stage :: stage_create where
  "nameless_stage = \<lparr>sc_stage = Some (Fin 4), sc_name = None, sc_price_per_share = Some (Fin 1700),
     sc_min_subscribers = None, sc_max_subscribers = None, sc_status = None, sc_shares_available = None\<rparr>"



section \<open>Agreement document renderer\<close>

text \<open>
  What the drawing surface receives, page by page. The model keeps the vertical layout
  only: an item records what is drawn and at which height, not its horizontal position,
  font or colour. The header of a page shows the status of the shareholder; the footer
  shows the year, the agreement id and the page number.
\<close>

datatype item =
    HeaderBand string
  | FooterBand nat string nat
  | Box jsnum jsnum
  | Words string jsnum
  | Picture jsnum jsnum
  | Rule jsnum

text \<open>The two paragraphs after which the route reads \<^verbatim>\<open>doc.y\<close>.\<close>

datatype text_style = TermBody | Declaration

text \<open>
  What the route takes from the PDF library and from the JavaScript runtime: the page
  size, the value of \<^verbatim>\<open>doc.y\<close> after a paragraph drawn at a given height, whether
  \<^verbatim>\<open>Buffer.from\<close> and \<^verbatim>\<open>doc.image\<close> accept an image, the clock, and the
  renderings of numbers and dates as strings. A text call of the library is taken to
  draw on the current page.
\<close>

record pdf_env =
  pageW :: jsnum
  pageH :: jsnum
  text_bottom :: "text_style \<Rightarrow> string \<Rightarrow> jsnum \<Rightarrow> jsnum"
  buffer_ok :: "string \<Rightarrow> bool"
  image_ok :: "string \<Rightarrow> bool"
  this_year :: nat
  sigDate :: string
  show_number :: "jsnum \<Rightarrow> string"
  show_locale :: "jsnum \<Rightarrow> string"
  show_fixed3 :: "jsnum \<Rightarrow> string"
  show_date :: "string \<Rightarrow> string"

text \<open>The variables of the route: \<^verbatim>\<open>cy\<close>, \<^verbatim>\<open>pageNum\<close>, \<^verbatim>\<open>rowIdx\<close> and the pages.\<close>

record pdf =
  cy :: jsnum
  pageNum :: nat
  rowIdx :: nat
  finished :: "item list list"
  page :: "item list"




text \<open>\<^verbatim>\<open>`QR-${String(s.id).padStart(5,'0')}`\<close>\<close>

definition padStart5 :: "string \<Rightarrow> string" where
  "padStart5 t = replicate (5 - length t) (CHR ''0'') @ t"

definition agreementId :: "shareholder \<Rightarrow> string" where
  "agreementId s = ''QR-'' @ padStart5 (show_nat (sh_id s))"

text \<open>A sequence of statements, each a change of the variables.\<close>

definition steps :: "('s \<Rightarrow> 's) list \<Rightarrow> 's \<Rightarrow> 's" where
  "steps fs st = foldl (\<lambda>s f. f s) st fs"

text \<open>Drawing an item on the current page, possibly at a height that depends on \<^verbatim>\<open>cy\<close>.\<close>

definition put :: "item \<Rightarrow> pdf \<Rightarrow> pdf" where
  "put it st = st\<lparr>page := page st @ [it]\<rparr>"

definition box_at :: "jsnum \<Rightarrow> jsnum \<Rightarrow> pdf \<Rightarrow> pdf" where
  "box_at dy h st = put (Box (js_add (cy st) dy) h) st"

definition words_at :: "string \<Rightarrow> jsnum \<Rightarrow> pdf \<Rightarrow> pdf" where
  "words_at t dy st = put (Words t (js_add (cy st) dy)) st"

definition picture_at :: "jsnum \<Rightarrow> jsnum \<Rightarrow> pdf \<Rightarrow> pdf" where
  "picture_at dy h st = put (Picture (js_add (cy st) dy) h) st"

definition rule_at :: "jsnum \<Rightarrow> pdf \<Rightarrow> pdf" where
  "rule_at dy st = put (Rule (js_add (cy st) dy)) st"












definition shade_row :: "jsnum \<Rightarrow> pdf \<Rightarrow> pdf" where
  "shade_row h st = (if rowIdx st mod 2 = 0 then box_at (Fin 0) h st else st)"

definition next_row :: "pdf \<Rightarrow> pdf" where
  "next_row st = st\<lparr>rowIdx := Suc (rowIdx st)\<rparr>"





















text \<open>\<^verbatim>\<open>t.startsWith('data:image')\<close>\<close>

definition is_data_image :: "string \<Rightarrow> bool" where
  "is_data_image t = (take 10 t = ''data:image'')"




definition reset_rows :: "pdf \<Rightarrow> pdf" where
  "reset_rows st = st\<lparr>rowIdx := 0\<rparr>"








text \<open>
  The signature of the investor: a text, an image (left out when the image is refused),
  or a placeholder.
\<close>

definition investor_signature :: "pdf_env \<Rightarrow> shareholder \<Rightarrow> pdf \<Rightarrow> pdf" where
  "investor_signature env s =
     (case sh_signature_data s of
        None \<Rightarrow> words_at ''(Investor Signature)'' (Fin 56)
      | Some t \<Rightarrow>
          if t = [] then words_at ''(Investor Signature)'' (Fin 56)
          else if \<not> is_data_image t then words_at t (Fin 50)
          else if buffer_ok env t \<and> image_ok env t then picture_at (Fin 46) (Fin 22)
          else (\<lambda>st. st))"





text \<open>The header and footers among the items of a page.\<close>

fun is_band :: "item \<Rightarrow> bool" where
  "is_band (HeaderBand _) = True"
| "is_band (FooterBand _ _ _) = True"
| "is_band _ = False"

definition bands :: "item list \<Rightarrow> item list" where
  "bands p = filter is_band p"

text \<open>
  The pages so far are numbered: page \<open>i\<close> of the finished ones carries the header and,
  twice, the footer of number \<open>i\<close>; the open page carries the header and the footer of
  \<^verbatim>\<open>pageNum\<close>, which is the number of pages.
\<close>

definition numbered :: "pdf_env \<Rightarrow> shareholder \<Rightarrow> pdf \<Rightarrow> bool" where
  "numbered env s st =
     (Suc (length (finished st)) = pageNum st
      \<and> (\<forall>i < length (finished st).
            bands (finished st ! i)
              = [HeaderBand (sh_status s), FooterBand (this_year env) (agreementId s) (Suc i),
                 FooterBand (this_year env) (agreementId s) (Suc i)])
      \<and> bands (page st)
          = [HeaderBand (sh_status s), FooterBand (this_year env) (agreementId s) (pageNum st)])"

text \<open>Either a page break has happened, or \<^verbatim>\<open>cy\<close> has reached the height \<open>L\<close>.\<close>

definition reached :: "nat \<Rightarrow> pdf \<Rightarrow> bool" where
  "reached L st = (2 \<le> pageNum st \<or> (1 \<le> pageNum st \<and> js_le (Fin (of_nat L)) (cy st)))"




section \<open>Rounding to binary64: properties\<close>








lemma ulp_pos [simp]: "0 < ulp a"
  by (simp add: ulp_def)

lemma ulp_nonneg [simp]: "0 \<le> ulp a"
  by (rule less_imp_le) (rule ulp_pos)















lemma ulp_nonzero [simp]: "ulp a \<noteq> 0"
  using ulp_pos[of a] by linarith

lemma fl_not_NaN [simp]: "fl x \<noteq> NaN"
  by (simp add: fl_def split: option.splits)

lemma fl_zero [simp]: "fl 0 = Fin 0"
  by (simp add: fl_def)

















lemma js_le_PInf [simp]: "js_le x PInf \<longleftrightarrow> x \<noteq> NaN"
  by (cases x) simp_all

lemma js_le_NInf [simp]: "js_le NInf x \<longleftrightarrow> x \<noteq> NaN"
  by (cases x) simp_all





section \<open>Dividend allocator: properties\<close>



















lemma js_mul_NaN [simp]: "js_mul x NaN = NaN"
  by (cases x) simp_all

lemma js_div_NaN [simp]: "js_div x NaN = NaN"
  by (cases x) simp_all

lemma js_add_NaN [simp]: "js_add x NaN = NaN"
  by (cases x) simp_all
















section \<open>Rounding drift of the bulk payout\<close>









lemma finite_values_map [simp]: "finite_values (map Fin gs) = Some gs"
  by (induction gs) simp_all









section \<open>Stage registry: properties\<close>

lemma filter_hd_in: "filter P xs = r # rs \<Longrightarrow> r \<in> set xs \<and> P r"
proof -
  assume h: "filter P xs = r # rs"
  have "r \<in> set (filter P xs)" by (simp add: h)
  then show ?thesis by simp
qed

text \<open>
  Claim C4. \<^verbatim>\<open>getRunningStage\<close> returns the first row whose status is \<^verbatim>\<open>RUNNING\<close> when
  there is one. When no row has that status it returns the literal with price 1200,
  stage 2 and name \<^verbatim>\<open>Current Price\<close>, and a registration that succeeds then stores
  that price, that stage and the investment \<^verbatim>\<open>numShares * 1200\<close>.
\<close>

theorem getRunningStage_spec:
  "(\<forall>r rs. [x \<leftarrow> investment_stages d. st_status x = ''RUNNING''] = r # rs \<longrightarrow>
       getRunningStage d = StageRow r \<and> r \<in> set (investment_stages d) \<and> st_status r = ''RUNNING'')
   \<and> ((\<forall>r \<in> set (investment_stages d). st_status r \<noteq> ''RUNNING'') \<longrightarrow>
        getRunningStage d = StageLiteral (Fin 1200) (Fin 2) ''Current Price''
        \<and> (\<forall>hash now rq. success (fst (register_agreement hash now rq d)) \<longrightarrow>
              (\<exists>row. shareholders (snd (register_agreement hash now rq d)) = shareholders d @ [row]
                 \<and> sh_price_per_share row = Fin 1200 \<and> sh_stage row = Fin 2
                 \<and> sh_num_shares row = Number (ag_numShares rq)
                 \<and> sh_total_investment row = js_mul (Number (ag_numShares rq)) (Fin 1200))))"
proof (intro conjI allI impI)
  fix r rs assume h: "[x \<leftarrow> investment_stages d. st_status x = ''RUNNING''] = r # rs"
  show "getRunningStage d = StageRow r" by (simp add: getRunningStage_def h)
  from filter_hd_in[OF h] show "r \<in> set (investment_stages d)" "st_status r = ''RUNNING''" by auto
next
  assume h: "\<forall>r \<in> set (investment_stages d). st_status r \<noteq> ''RUNNING''"
  then have e: "[x \<leftarrow> investment_stages d. st_status x = ''RUNNING''] = []"
    by (simp add: filter_empty_conv)
  show g: "getRunningStage d = StageLiteral (Fin 1200) (Fin 2) ''Current Price''"
    by (simp add: getRunningStage_def e)
  fix hash now rq
  assume s: "success (fst (register_agreement hash now rq d))"
  then show "\<exists>row. shareholders (snd (register_agreement hash now rq d)) = shareholders d @ [row]
                 \<and> sh_price_per_share row = Fin 1200 \<and> sh_stage row = Fin 2
                 \<and> sh_num_shares row = Number (ag_numShares rq)
                 \<and> sh_total_investment row = js_mul (Number (ag_numShares rq)) (Fin 1200)"
    by (auto simp add: register_agreement_def g reply_def Let_def split: if_splits)
qed

lemma mul_100_1200: "js_mul (Fin 100) (Fin 1200) = Fin 120000"
  by code_simp

theorem getRunningStage_spec_witness:
  "getRunningStage (store_of [] [] seeded_stages) = StageRow (seeded_stages ! 1)
   \<and> getRunningStage (store_of [] [] [hd seeded_stages]) = StageLiteral (Fin 1200) (Fin 2) ''Current Price''
   \<and> (\<exists>row. shareholders (snd (register_agreement sample_hash ''2026-03-01T10:00:00.000Z''
                 (signup_request ''pema'' (Fin 100)) (store_of [] [] [hd seeded_stages]))) = [row]
        \<and> sh_price_per_share row = Fin 1200 \<and> sh_stage row = Fin 2
        \<and> sh_total_investment row = Fin 120000)"
proof -
  have a: "[x \<leftarrow> investment_stages (store_of [] [] seeded_stages). st_status x = ''RUNNING'']
             = [seeded_stages ! 1]"
    by (simp add: store_of_def seeded_stages_def)
  have b: "\<forall>r \<in> set (investment_stages (store_of [] [] [hd seeded_stages])). st_status r \<noteq> ''RUNNING''"
    by (simp add: store_of_def seeded_stages_def)
  have c: "success (fst (register_agreement sample_hash ''2026-03-01T10:00:00.000Z''
                 (signup_request ''pema'' (Fin 100)) (store_of [] [] [hd seeded_stages])))"
    by (simp add: register_agreement_def signup_request_def store_of_def str_missing_def
          num_missing_def truthy_def Let_def)
  have n: "Number (ag_numShares (signup_request ''pema'' (Fin 100))) = Fin 100"
    by (simp add: signup_request_def Number_def)
  have s: "shareholders (store_of [] [] [hd seeded_stages]) = []"
    by (simp add: store_of_def)
  from getRunningStage_spec[of "store_of [] [] seeded_stages"] a
  have 1: "getRunningStage (store_of [] [] seeded_stages) = StageRow (seeded_stages ! 1)"
    by blast
  from getRunningStage_spec[of "store_of [] [] [hd seeded_stages]"] b c
  have 2: "getRunningStage (store_of [] [] [hd seeded_stages]) = StageLiteral (Fin 1200) (Fin 2) ''Current Price''
    \<and> (\<exists>row. shareholders (snd (register_agreement sample_hash ''2026-03-01T10:00:00.000Z''
                 (signup_request ''pema'' (Fin 100)) (store_of [] [] [hd seeded_stages])))
                = shareholders (store_of [] [] [hd seeded_stages]) @ [row]
        \<and> sh_price_per_share row = Fin 1200 \<and> sh_stage row = Fin 2
        \<and> sh_num_shares row = Number (ag_numShares (signup_request ''pema'' (Fin 100)))
        \<and> sh_total_investment row = js_mul (Number (ag_numShares (signup_request ''pema'' (Fin 100)))) (Fin 1200))"
    by blast
  from 1 2 show ?thesis unfolding n s mul_100_1200 by auto
qed

text \<open>
  Claim C8. A stage update that supplies none of the four fields is answered with status
  400 and leaves the store as it was, and so is a creation that lacks the stage number,
  the name or the price. An update that supplies some of the fields changes, in the rows
  whose key is the target, exactly the supplied fields, and no other row or table.
\<close>

theorem upsertStage_spec:
  "(su_status u = None \<and> su_price_per_share u = None \<and> su_name u = None
      \<and> su_shares_available u = None \<longrightarrow>
      update_stage sid u d = (reply 400 False ''Nothing to update'', d))
   \<and> (sc_stage c = None \<or> sc_name c = None \<or> sc_price_per_share c = None \<longrightarrow>
      create_stage c d = (reply 400 False ''stage, name, price_per_share required'', d))
   \<and> (\<not> (su_status u = None \<and> su_price_per_share u = None \<and> su_name u = None
          \<and> su_shares_available u = None) \<longrightarrow>
      success (fst (update_stage sid u d))
      \<and> length (investment_stages (snd (update_stage sid u d))) = length (investment_stages d)
      \<and> (\<forall>i < length (investment_stages d).
            (st_id (investment_stages d ! i) \<noteq> sid \<longrightarrow>
               investment_stages (snd (update_stage sid u d)) ! i = investment_stages d ! i)
          \<and> (st_id (investment_stages d ! i) = sid \<longrightarrow>
               st_status (investment_stages (snd (update_stage sid u d)) ! i)
                 = (case su_status u of None \<Rightarrow> st_status (investment_stages d ! i) | Some v \<Rightarrow> v)
             \<and> st_price_per_share (investment_stages (snd (update_stage sid u d)) ! i)
                 = (case su_price_per_share u of None \<Rightarrow> st_price_per_share (investment_stages d ! i) | Some v \<Rightarrow> v)
             \<and> st_name (investment_stages (snd (update_stage sid u d)) ! i)
                 = (case su_name u of None \<Rightarrow> st_name (investment_stages d ! i) | Some v \<Rightarrow> v)
             \<and> st_shares_available (investment_stages (snd (update_stage sid u d)) ! i)
                 = (case su_shares_available u of None \<Rightarrow> st_shares_available (investment_stages d ! i) | Some v \<Rightarrow> v)
             \<and> st_id (investment_stages (snd (update_stage sid u d)) ! i) = st_id (investment_stages d ! i)
             \<and> st_stage (investment_stages (snd (update_stage sid u d)) ! i) = st_stage (investment_stages d ! i)
             \<and> st_min_subscribers (investment_stages (snd (update_stage sid u d)) ! i)
                 = st_min_subscribers (investment_stages d ! i)
             \<and> st_max_subscribers (investment_stages (snd (update_stage sid u d)) ! i)
                 = st_max_subscribers (investment_stages d ! i)))
      \<and> shareholders (snd (update_stage sid u d)) = shareholders d
      \<and> dividend_history (snd (update_stage sid u d)) = dividend_history d)"
proof (intro conjI impI)
  assume "su_status u = None \<and> su_price_per_share u = None \<and> su_name u = None
      \<and> su_shares_available u = None"
  then show "update_stage sid u d = (reply 400 False ''Nothing to update'', d)"
    by (simp add: update_stage_def)
next
  assume "sc_stage c = None \<or> sc_name c = None \<or> sc_price_per_share c = None"
  then show "create_stage c d = (reply 400 False ''stage, name, price_per_share required'', d)"
    by (auto simp add: create_stage_def num_missing_def str_missing_def)
next
  assume n: "\<not> (su_status u = None \<and> su_price_per_share u = None \<and> su_name u = None
          \<and> su_shares_available u = None)"
  then have e: "update_stage sid u d = (reply 200 True ''Stage updated'',
            d\<lparr>investment_stages :=
                 map (\<lambda>r. if st_id r = sid then set_stage_fields u r else r) (investment_stages d)\<rparr>)"
    by (auto simp add: update_stage_def)
  show "success (fst (update_stage sid u d))" by (simp add: e reply_def)
  show "length (investment_stages (snd (update_stage sid u d))) = length (investment_stages d)"
    by (simp add: e)
  show "shareholders (snd (update_stage sid u d)) = shareholders d" by (simp add: e)
  show "dividend_history (snd (update_stage sid u d)) = dividend_history d" by (simp add: e)
  show "\<forall>i < length (investment_stages d).
            (st_id (investment_stages d ! i) \<noteq> sid \<longrightarrow>
               investment_stages (snd (update_stage sid u d)) ! i = investment_stages d ! i)
          \<and> (st_id (investment_stages d ! i) = sid \<longrightarrow>
               st_status (investment_stages (snd (update_stage sid u d)) ! i)
                 = (case su_status u of None \<Rightarrow> st_status (investment_stages d ! i) | Some v \<Rightarrow> v)
             \<and> st_price_per_share (investment_stages (snd (update_stage sid u d)) ! i)
                 = (case su_price_per_share u of None \<Rightarrow> st_price_per_share (investment_stages d ! i) | Some v \<Rightarrow> v)
             \<and> st_name (investment_stages (snd (update_stage sid u d)) ! i)
                 = (case su_name u of None \<Rightarrow> st_name (investment_stages d ! i) | Some v \<Rightarrow> v)
             \<and> st_shares_available (investment_stages (snd (update_stage sid u d)) ! i)
                 = (case su_shares_available u of None \<Rightarrow> st_shares_available (investment_stages d ! i) | Some v \<Rightarrow> v)
             \<and> st_id (investment_stages (snd (update_stage sid u d)) ! i) = st_id (investment_stages d ! i)
             \<and> st_stage (investment_stages (snd (update_stage sid u d)) ! i) = st_stage (investment_stages d ! i)
             \<and> st_min_subscribers (investment_stages (snd (update_stage sid u d)) ! i)
                 = st_min_subscribers (investment_stages d ! i)
             \<and> st_max_subscribers (investment_stages (snd (update_stage sid u d)) ! i)
                 = st_max_subscribers (investment_stages d ! i))"
    by (simp add: e set_stage_fields_def split: option.splits)
qed

theorem upsertStage_spec_witness:
  "update_stage 3 empty_update (store_of [] [] seeded_stages)
     = (reply 400 False ''Nothing to update'', store_of [] [] seeded_stages)
   \<and> create_stage nameless_stage (store_of [] [] seeded_stages)
     = (reply 400 False ''stage, name, price_per_share required'', store_of [] [] seeded_stages)
   \<and> investment_stages (snd (update_stage 3 price_only (store_of [] [] seeded_stages))) ! 0
     = seeded_stages ! 0
   \<and> investment_stages (snd (update_stage 3 price_only (store_of [] [] seeded_stages))) ! 1
     = seeded_stages ! 1
   \<and> investment_stages (snd (update_stage 3 price_only (store_of [] [] seeded_stages))) ! 2
     = (seeded_stages ! 2)\<lparr>st_price_per_share := Fin 1500\<rparr>"
proof -
  let ?d = "store_of [] [] seeded_stages"
  have a: "su_status empty_update = None \<and> su_price_per_share empty_update = None
      \<and> su_name empty_update = None \<and> su_shares_available empty_update = None"
    by (simp add: empty_update_def)
  have b: "sc_stage nameless_stage = None \<or> sc_name nameless_stage = None
      \<or> sc_price_per_share nameless_stage = None"
    by (simp add: nameless_stage_def)
  have c: "\<not> (su_status price_only = None \<and> su_price_per_share price_only = None
      \<and> su_name price_only = None \<and> su_shares_available price_only = None)"
    by (simp add: price_only_def)
  have l: "length (investment_stages ?d) = 3" by (simp add: store_of_def seeded_stages_def)
  have i: "st_id (investment_stages ?d ! 0) \<noteq> 3" "st_id (investment_stages ?d ! 1) \<noteq> 3"
    "st_id (investment_stages ?d ! 2) = 3"
    "investment_stages ?d ! 0 = seeded_stages ! 0" "investment_stages ?d ! 1 = seeded_stages ! 1"
    "investment_stages ?d ! 2 = seeded_stages ! 2"
    by (simp_all add: store_of_def seeded_stages_def)
  from upsertStage_spec[of empty_update 3 ?d nameless_stage] a b
  have 1: "update_stage 3 empty_update ?d = (reply 400 False ''Nothing to update'', ?d)"
    and 2: "create_stage nameless_stage ?d
     = (reply 400 False ''stage, name, price_per_share required'', ?d)"
    by blast+
  from upsertStage_spec[of price_only 3 ?d nameless_stage] c
  have 3: "length (investment_stages (snd (update_stage 3 price_only ?d))) = length (investment_stages ?d)"
    and 4: "\<forall>i < length (investment_stages ?d).
            (st_id (investment_stages ?d ! i) \<noteq> 3 \<longrightarrow>
               investment_stages (snd (update_stage 3 price_only ?d)) ! i = investment_stages ?d ! i)
          \<and> (st_id (investment_stages ?d ! i) = 3 \<longrightarrow>
               st_status (investment_stages (snd (update_stage 3 price_only ?d)) ! i)
                 = (case su_status price_only of None \<Rightarrow> st_status (investment_stages ?d ! i) | Some v \<Rightarrow> v)
             \<and> st_price_per_share (investment_stages (snd (update_stage 3 price_only ?d)) ! i)
                 = (case su_price_per_share price_only of None \<Rightarrow> st_price_per_share (investment_stages ?d ! i) | Some v \<Rightarrow> v)
             \<and> st_name (investment_stages (snd (update_stage 3 price_only ?d)) ! i)
                 = (case su_name price_only of None \<Rightarrow> st_name (investment_stages ?d ! i) | Some v \<Rightarrow> v)
             \<and> st_shares_available (investment_stages (snd (update_stage 3 price_only ?d)) ! i)
                 = (case su_shares_available price_only of None \<Rightarrow> st_shares_available (investment_stages ?d ! i) | Some v \<Rightarrow> v)
             \<and> st_id (investment_stages (snd (update_stage 3 price_only ?d)) ! i) = st_id (investment_stages ?d ! i)
             \<and> st_stage (investment_stages (snd (update_stage 3 price_only ?d)) ! i) = st_stage (investment_stages ?d ! i)
             \<and> st_min_subscribers (investment_stages (snd (update_stage 3 price_only ?d)) ! i)
                 = st_min_subscribers (investment_stages ?d ! i)
             \<and> st_max_subscribers (investment_stages (snd (update_stage 3 price_only ?d)) ! i)
                 = st_max_subscribers (investment_stages ?d ! i))"
    by blast+
  let ?xs = "investment_stages (snd (update_stage 3 price_only ?d))"
  from 3 l have l3: "length ?xs = 3" by simp
  from 4 l i have x0: "?xs ! 0 = seeded_stages ! 0" and x1: "?xs ! 1 = seeded_stages ! 1" by auto
  from 4 l i(3) have "st_status (?xs ! 2) = (case su_status price_only of None \<Rightarrow> st_status (investment_stages ?d ! 2) | Some v \<Rightarrow> v)
             \<and> st_price_per_share (?xs ! 2)
                 = (case su_price_per_share price_only of None \<Rightarrow> st_price_per_share (investment_stages ?d ! 2) | Some v \<Rightarrow> v)
             \<and> st_name (?xs ! 2)
                 = (case su_name price_only of None \<Rightarrow> st_name (investment_stages ?d ! 2) | Some v \<Rightarrow> v)
             \<and> st_shares_available (?xs ! 2)
                 = (case su_shares_available price_only of None \<Rightarrow> st_shares_available (investment_stages ?d ! 2) | Some v \<Rightarrow> v)
             \<and> st_id (?xs ! 2) = st_id (investment_stages ?d ! 2)
             \<and> st_stage (?xs ! 2) = st_stage (investment_stages ?d ! 2)
             \<and> st_min_subscribers (?xs ! 2) = st_min_subscribers (investment_stages ?d ! 2)
             \<and> st_max_subscribers (?xs ! 2) = st_max_subscribers (investment_stages ?d ! 2)"
    by auto
  then have x2: "?xs ! 2 = (seeded_stages ! 2)\<lparr>st_price_per_share := Fin 1500\<rparr>"
    unfolding i(6) by (simp add: price_only_def)
  from 1 2 x0 x1 x2 show ?thesis by blast
qed

section \<open>Shareholder lifecycle: properties\<close>

text \<open>
  Claim C5. A status update writes the incoming status, whatever it is, to the rows whose
  key is the target; their \<^verbatim>\<open>approved_at\<close> becomes the current time when the incoming
  status is \<^verbatim>\<open>APPROVED\<close> and null otherwise, whatever the row held before. No other
  column of those rows changes, and no other row or table.
\<close>

theorem update_agreement_status_spec:
  "success (fst (update_agreement_status now sid status d))
   \<and> length (shareholders (snd (update_agreement_status now sid status d))) = length (shareholders d)
   \<and> (\<forall>i < length (shareholders d).
        (sh_id (shareholders d ! i) = sid \<longrightarrow>
           sh_status (shareholders (snd (update_agreement_status now sid status d)) ! i) = status
           \<and> (status = ''APPROVED'' \<longrightarrow>
                sh_approved_at (shareholders (snd (update_agreement_status now sid status d)) ! i) = Some now)
           \<and> (status \<noteq> ''APPROVED'' \<longrightarrow>
                sh_approved_at (shareholders (snd (update_agreement_status now sid status d)) ! i) = None)
           \<and> (shareholders (snd (update_agreement_status now sid status d)) ! i)
                \<lparr>sh_status := sh_status (shareholders d ! i),
                 sh_approved_at := sh_approved_at (shareholders d ! i)\<rparr> = shareholders d ! i)
        \<and> (sh_id (shareholders d ! i) \<noteq> sid \<longrightarrow>
             shareholders (snd (update_agreement_status now sid status d)) ! i = shareholders d ! i))
   \<and> dividend_history (snd (update_agreement_status now sid status d)) = dividend_history d
   \<and> investment_stages (snd (update_agreement_status now sid status d)) = investment_stages d"
  by (simp add: update_agreement_status_def reply_def)

theorem update_agreement_status_spec_witness:
  "sh_approved_at (shareholders (snd (update_agreement_status ''2026-03-02T09:00:00.000Z'' 2 ''APPROVED''
        (store_of [holder 1 ''admin'' ''ADMIN'' ''APPROVED'' (Fin 0), holder 2 ''tashi'' ''DRIVER'' ''PENDING'' (Fin 5)] [] []))) ! 1)
     = Some ''2026-03-02T09:00:00.000Z''
   \<and> sh_approved_at (shareholders (snd (update_agreement_status ''2026-03-03T09:00:00.000Z'' 2 ''REJECTED''
        (snd (update_agreement_status ''2026-03-02T09:00:00.000Z'' 2 ''APPROVED''
        (store_of [holder 1 ''admin'' ''ADMIN'' ''APPROVED'' (Fin 0), holder 2 ''tashi'' ''DRIVER'' ''PENDING'' (Fin 5)] [] []))))) ! 1)
     = None
   \<and> shareholders (snd (update_agreement_status ''2026-03-02T09:00:00.000Z'' 2 ''APPROVED''
        (store_of [holder 1 ''admin'' ''ADMIN'' ''APPROVED'' (Fin 0), holder 2 ''tashi'' ''DRIVER'' ''PENDING'' (Fin 5)] [] []))) ! 0
     = holder 1 ''admin'' ''ADMIN'' ''APPROVED'' (Fin 0)"
proof -
  let ?d = "store_of [holder 1 ''admin'' ''ADMIN'' ''APPROVED'' (Fin 0), holder 2 ''tashi'' ''DRIVER'' ''PENDING'' (Fin 5)] [] []"
  let ?d1 = "snd (update_agreement_status ''2026-03-02T09:00:00.000Z'' 2 ''APPROVED'' ?d)"
  have l: "length (shareholders ?d) = 2" "length (shareholders ?d1) = 2"
    by (simp_all add: store_of_def update_agreement_status_def Let_def)
  have i: "sh_id (shareholders ?d ! 1) = 2" "sh_id (shareholders ?d ! 0) \<noteq> 2" "sh_id (shareholders ?d1 ! 1) = 2"
    "shareholders ?d ! 0 = holder 1 ''admin'' ''ADMIN'' ''APPROVED'' (Fin 0)"
    by (simp_all add: store_of_def holder_def update_agreement_status_def Let_def)
  have r: "''REJECTED'' \<noteq> ''APPROVED''" by simp
  from update_agreement_status_spec[of "''2026-03-02T09:00:00.000Z''" 2 "''APPROVED''" ?d]
       update_agreement_status_spec[of "''2026-03-03T09:00:00.000Z''" 2 "''REJECTED''" ?d1]
       l i r
  show ?thesis by (metis One_nat_def lessI less_2_cases_iff)
qed

text \<open>
  Claim C6. For a username that has a row and a password that the hashing library
  accepts, a row that is neither of role \<^verbatim>\<open>ADMIN\<close> nor of status \<^verbatim>\<open>APPROVED\<close>
  is answered with status 200, \<^verbatim>\<open>success: false\<close> and the pending-approval message,
  which differs from the answer to a wrong password; a row of role \<^verbatim>\<open>ADMIN\<close> is
  logged in whatever its status.
\<close>

theorem login_approval_gate:
  assumes "[s \<leftarrow> shareholders d. sh_username s = u] = row # rest" and "u \<noteq> []" and "p \<noteq> []"
  shows "(\<not> compare p (sh_password_hash row) \<longrightarrow>
            login compare (Some u) (Some p) d = reply 200 False ''Invalid credentials.'')
       \<and> (compare p (sh_password_hash row) \<and> sh_business_role row \<noteq> ''ADMIN''
            \<and> sh_status row \<noteq> ''APPROVED'' \<longrightarrow>
            login compare (Some u) (Some p) d =
              reply 200 False ''Account pending approval. Please wait for admin to approve.''
            \<and> login compare (Some u) (Some p) d \<noteq> reply 200 False ''Invalid credentials.'')
       \<and> (compare p (sh_password_hash row) \<and> sh_business_role row = ''ADMIN'' \<longrightarrow>
            login compare (Some u) (Some p) d =
              \<lparr>http_status = 200, success = True, message = None,
               payload = LoginUser (sh_id row) (sh_full_name row) ''ADMIN'' (sh_username row)\<rparr>)"
  using assms by (simp add: login_def str_missing_def reply_def)

theorem login_approval_gate_witness:
  "login sample_compare (Some ''tashi'') (Some ''secret'')
      (store_of [holder 1 ''admin'' ''ADMIN'' ''PENDING'' (Fin 0), holder 2 ''tashi'' ''DRIVER'' ''PENDING'' (Fin 5)] [] [])
     = reply 200 False ''Account pending approval. Please wait for admin to approve.''
   \<and> login sample_compare (Some ''tashi'') (Some ''wrong'')
      (store_of [holder 1 ''admin'' ''ADMIN'' ''PENDING'' (Fin 0), holder 2 ''tashi'' ''DRIVER'' ''PENDING'' (Fin 5)] [] [])
     = reply 200 False ''Invalid credentials.''
   \<and> success (login sample_compare (Some ''admin'') (Some ''secret'')
      (store_of [holder 1 ''admin'' ''ADMIN'' ''PENDING'' (Fin 0), holder 2 ''tashi'' ''DRIVER'' ''PENDING'' (Fin 5)] [] []))"
proof -
  let ?a = "holder 1 ''admin'' ''ADMIN'' ''PENDING'' (Fin 0)"
  let ?t = "holder 2 ''tashi'' ''DRIVER'' ''PENDING'' (Fin 5)"
  let ?d = "store_of [?a, ?t] [] []"
  have ft: "[s \<leftarrow> shareholders ?d. sh_username s = ''tashi''] = ?t # []"
    by (simp add: store_of_def holder_def)
  have fa: "[s \<leftarrow> shareholders ?d. sh_username s = ''admin''] = ?a # []"
    by (simp add: store_of_def holder_def)
  have n: "''tashi'' \<noteq> []" "''admin'' \<noteq> []" "''secret'' \<noteq> []" "''wrong'' \<noteq> []" by simp_all
  have c: "sample_compare ''secret'' (sh_password_hash ?t)" "\<not> sample_compare ''wrong'' (sh_password_hash ?t)"
    "sample_compare ''secret'' (sh_password_hash ?a)"
    by (simp_all add: sample_compare_def sample_hash_def holder_def)
  have r: "sh_business_role ?t \<noteq> ''ADMIN''" "sh_status ?t \<noteq> ''APPROVED''" "sh_business_role ?a = ''ADMIN''"
    by (simp_all add: holder_def)
  from login_approval_gate[OF ft n(1) n(3), of sample_compare] c(1) r(1,2)
  have 1: "login sample_compare (Some ''tashi'') (Some ''secret'') ?d
     = reply 200 False ''Account pending approval. Please wait for admin to approve.''"
    by blast
  from login_approval_gate[OF ft n(1) n(4), of sample_compare] c(2)
  have 2: "login sample_compare (Some ''tashi'') (Some ''wrong'') ?d = reply 200 False ''Invalid credentials.''"
    by blast
  from login_approval_gate[OF fa n(2) n(3), of sample_compare] c(3) r(3)
  have 3: "success (login sample_compare (Some ''admin'') (Some ''secret'') ?d)"
    by simp
  from 1 2 3 show ?thesis by blast
qed





section \<open>Agreement document renderer: properties\<close>

lemma steps_Nil [simp]: "steps [] st = st"
  by (simp add: steps_def)

lemma steps_Cons [simp]: "steps (f # fs) st = steps fs (f st)"
  by (simp add: steps_def)

lemma bands_append [simp]: "bands (p @ q) = bands p @ bands q"
  by (simp add: bands_def)


lemma numbered_cy [simp]: "numbered env s (st\<lparr>cy := y\<rparr>) = numbered env s st"
  by (simp add: numbered_def)

lemma numbered_rowIdx [simp]: "numbered env s (st\<lparr>rowIdx := r\<rparr>) = numbered env s st"
  by (simp add: numbered_def)




































lemma reached_put [simp]: "reached L (put it st) = reached L st"
  by (simp add: reached_def put_def)

lemma reached_box_at [simp]: "reached L (box_at dy h st) = reached L st"
  by (simp add: box_at_def)

lemma reached_words_at [simp]: "reached L (words_at t dy st) = reached L st"
  by (simp add: words_at_def)

lemma reached_picture_at [simp]: "reached L (picture_at dy h st) = reached L st"
  by (simp add: picture_at_def)

lemma reached_rule_at [simp]: "reached L (rule_at dy st) = reached L st"
  by (simp add: rule_at_def)

lemma reached_next_row [simp]: "reached L (next_row st) = reached L st"
  by (simp add: reached_def next_row_def)

lemma reached_reset_rows [simp]: "reached L (reset_rows st) = reached L st"
  by (simp add: reached_def reset_rows_def)

lemma reached_shade_row [simp]: "reached L (shade_row h st) = reached L st"
  by (simp add: shade_row_def)




lemma js_le_numeral_refl [simp]: "js_le (Fin a) (Fin a)"
  by simp












lemma reached_investor_signature [simp]:
  "reached L (investor_signature env s st) = reached L st"
  by (simp add: investor_signature_def split: option.splits)




















end
